theory Spec2Isabelle
  imports Main
begin

section \<open>Provider chunks\<close>

text \<open>
  The stream delivers decoded JSON objects. The TypeScript interfaces
  \<^verbatim>\<open>ChatCompletionChunk\<close> and \<^verbatim>\<open>Completion\<close> describe two shapes of the same
  object; at run time the code tells them apart by testing which keys are present, so one
  record carries the keys of both and every key that may be absent is an \<open>option\<close>.
  Keys the code never reads (\<^verbatim>\<open>id\<close>, \<^verbatim>\<open>created\<close>, \<^verbatim>\<open>model\<close>, \<^verbatim>\<open>object\<close>, \<^verbatim>\<open>index\<close>,
  \<^verbatim>\<open>logprobs\<close>, \<^verbatim>\<open>role\<close>) are left out. Strings are lists of 8-bit characters.
\<close>

datatype finish_reason = Stop | Length | Function_Call

text \<open>\<^verbatim>\<open>content?: string | null\<close>: a string, \<^verbatim>\<open>null\<close>, or no value.\<close>

datatype js_string = Undefined | Null | Str string

record FunctionCall =
  arguments :: "string option"
  name :: "string option"

record ChoiceDelta =
  content :: js_string
  function_call :: "FunctionCall option"

record Choice =
  delta :: "ChoiceDelta option"
  finish_reason :: "finish_reason option"
  text_field :: "string option"

record Chunk =
  choices :: "Choice list option"
  conversation_id :: "string option"
  parent_message_id :: "string option"

datatype error = TypeError | SyntaxError | HandlerError

subsection \<open>JavaScript truthiness and template literals\<close>

text \<open>An optional string is truthy when it is present and not empty.\<close>

definition truthy :: "string option \<Rightarrow> bool" where
  "truthy v = (case v of None \<Rightarrow> False | Some s \<Rightarrow> s \<noteq> [])"

definition js_truthy :: "js_string \<Rightarrow> bool" where
  "js_truthy v = (case v of Str s \<Rightarrow> s \<noteq> [] | _ \<Rightarrow> False)"

text \<open>What a template literal \<^verbatim>\<open>${v}\<close> prints.\<close>

definition template :: "js_string \<Rightarrow> string" where
  "template v = (case v of Undefined \<Rightarrow> ''undefined'' | Null \<Rightarrow> ''null'' | Str s \<Rightarrow> s)"

text \<open>The value of an optional string that is known to be there (\<open>[]\<close> is never used).\<close>

definition str_of :: "string option \<Rightarrow> string" where
  "str_of v = (case v of None \<Rightarrow> [] | Some s \<Rightarrow> s)"

section \<open>Chunk classifier\<close>

text \<open>
  \<^verbatim>\<open>'choices' in data && data.choices && data.choices[0] && 'delta' in data.choices[0]\<close>:
  an array is truthy even when empty, its first element is \<^verbatim>\<open>undefined\<close> when it is empty.
\<close>

definition isChatCompletionChunk :: "Chunk \<Rightarrow> bool" where
  "isChatCompletionChunk data =
     (case choices data of
        None \<Rightarrow> False
      | Some [] \<Rightarrow> False
      | Some (c # _) \<Rightarrow> delta c \<noteq> None)"

definition isCompletion :: "Chunk \<Rightarrow> bool" where
  "isCompletion data =
     (case choices data of
        None \<Rightarrow> False
      | Some [] \<Rightarrow> False
      | Some (c # _) \<Rightarrow> text_field c \<noteq> None)"

section \<open>Text extractor\<close>

subsection \<open>Escaping of argument fragments\<close>

text \<open>
  \<^verbatim>\<open>s.replace(/c/g, r)\<close> for a one-character pattern: every occurrence of \<open>c\<close> becomes \<open>r\<close>.
\<close>

definition replace_all :: "char \<Rightarrow> string \<Rightarrow> string \<Rightarrow> string" where
  "replace_all c r s = concat (map (\<lambda>x. if x = c then r else [x]) s)"

abbreviation backslash :: char where "backslash \<equiv> CHR 0x5C"
abbreviation dquote :: char where "dquote \<equiv> CHR 0x22"

text \<open>The seven replacements of \<^verbatim>\<open>escapedPartialJson\<close>, in the order of the source.\<close>

definition escapedPartialJson :: "string \<Rightarrow> string" where
  "escapedPartialJson argumentChunk =
     replace_all (CHR 0x0C) [backslash, CHR ''f'']
       (replace_all (CHR 0x09) [backslash, CHR ''t'']
         (replace_all (CHR 0x0D) [backslash, CHR ''r'']
           (replace_all (CHR 0x0A) [backslash, CHR ''n'']
             (replace_all dquote [backslash, dquote]
               (replace_all (CHR ''/'') [backslash, CHR ''/'']
                 (replace_all backslash [backslash, backslash] argumentChunk))))))"

subsection \<open>The closure returned by chunkToText\<close>

text \<open>
  \<^verbatim>\<open>chunkToText()\<close> returns a closure over two variables: the state of the start-of-stream
  trimmer and \<^verbatim>\<open>isFunctionStreamingIn\<close> (declared without a value, so falsy at first).
  The trimmer \<^verbatim>\<open>trimStartOfStreamHelper()\<close> comes from the package \<^verbatim>\<open>ai\<close>; it is a parameter
  here: a step function on a state \<open>'t\<close> that maps a text to the text it lets through.
\<close>

record 't ExtractState =
  trimState :: 't
  isFunctionStreamingIn_x :: bool

type_synonym 't trimmer = "'t \<Rightarrow> string \<Rightarrow> string \<times> 't"

text \<open>\<^verbatim>\<open>json.choices[0]?.delta?.function_call\<close>, read after \<open>isChatCompletionChunk\<close> holds.\<close>

definition delta_function_call :: "Chunk \<Rightarrow> FunctionCall option" where
  "delta_function_call json =
     (case choices json of
        Some (c # _) \<Rightarrow> (case delta c of Some d \<Rightarrow> function_call d | None \<Rightarrow> None)
      | _ \<Rightarrow> None)"

definition function_call_name :: "Chunk \<Rightarrow> string option" where
  "function_call_name json = (case delta_function_call json of Some f \<Rightarrow> name f | None \<Rightarrow> None)"

definition function_call_arguments :: "Chunk \<Rightarrow> string option" where
  "function_call_arguments json =
     (case delta_function_call json of Some f \<Rightarrow> arguments f | None \<Rightarrow> None)"

text \<open>
  The third test, \<^verbatim>\<open>isFunctionStreamingIn && (json.choices[0]?.finish_reason === ...)\<close>.
  The right operand is evaluated only when the flag is set; \<^verbatim>\<open>json.choices[0]\<close> throws when
  \<^verbatim>\<open>choices\<close> is absent, and \<^verbatim>\<open>?.\<close> gives \<^verbatim>\<open>undefined\<close> when the array is empty.
\<close>

definition finishes_call :: "bool \<Rightarrow> Chunk \<Rightarrow> error + bool" where
  "finishes_call streaming json =
     (if \<not> streaming then Inr False
      else case choices json of
             None \<Rightarrow> Inl TypeError
           | Some [] \<Rightarrow> Inr False
           | Some (c # _) \<Rightarrow>
               Inr (finish_reason c = Some Function_Call \<or> finish_reason c = Some Stop))"

text \<open>
  The plain-content path (from \<^verbatim>\<open>let content\<close> to \<^verbatim>\<open>return text\<close>). The read
  \<^verbatim>\<open>json.choices[0].delta.content\<close> has no optional chaining: it throws a TypeError when
  \<^verbatim>\<open>choices\<close>, its first element or that element's \<^verbatim>\<open>delta\<close> is missing. The copy \<^verbatim>\<open>cp\<close> has
  the keys of \<^verbatim>\<open>json\<close>, with \<^verbatim>\<open>delta.content\<close> overwritten by \<^verbatim>\<open>content\<close>; past the read it
  always has a \<^verbatim>\<open>delta\<close>, so \<^verbatim>\<open>isChatCompletionChunk(cp)\<close> holds there.
\<close>

definition plain_content :: "Chunk \<Rightarrow> error + string" where
  \<open>plain_content json =
     (case choices json of
        None \<Rightarrow> Inl TypeError
      | Some [] \<Rightarrow> Inl TypeError
      | Some (c # _) \<Rightarrow>
          (case delta c of
             None \<Rightarrow> Inl TypeError
           | Some d \<Rightarrow>
               (let content' =
                      (if truthy (conversation_id json) \<and> truthy (parent_message_id json)
                       then Str (template (content d) @
                                 '' {"conversation_id":"'' @ str_of (conversation_id json) @
                                 ''","parent_message_id":"'' @ str_of (parent_message_id json) @
                                 ''"}'')
                       else content d)
                in Inr (if js_truthy content' then template content'
                        else case text_field c of Some t \<Rightarrow> t | None \<Rightarrow> []))))\<close>

definition function_call_open :: "string \<Rightarrow> string" where
  \<open>function_call_open n = ''{"function_call": {"name": "'' @ n @ ''", "arguments": "''\<close>

definition function_call_close :: string where
  \<open>function_call_close = ''"}}''\<close>

definition chunkToText ::
  "'t trimmer \<Rightarrow> 't ExtractState \<Rightarrow> Chunk \<Rightarrow> error + (string \<times> 't ExtractState)" where
  "chunkToText trimStartOfStream st json =
     (if isChatCompletionChunk json \<and> truthy (function_call_name json) then
        Inr (function_call_open (str_of (function_call_name json)),
             st\<lparr>isFunctionStreamingIn_x := True\<rparr>)
      else if isChatCompletionChunk json \<and> truthy (function_call_arguments json) then
        Inr (escapedPartialJson (str_of (function_call_arguments json)), st)
      else
        (case finishes_call (isFunctionStreamingIn_x st) json of
           Inl e \<Rightarrow> Inl e
         | Inr True \<Rightarrow> Inr (function_call_close, st\<lparr>isFunctionStreamingIn_x := False\<rparr>)
         | Inr False \<Rightarrow>
             (case plain_content json of
                Inl e \<Rightarrow> Inl e
              | Inr txt \<Rightarrow>
                  (let (out, ts) = trimStartOfStream (trimState st) txt
                   in Inr (out, st\<lparr>trimState := ts\<rparr>)))))"

text \<open>
  \<^verbatim>\<open>streamable\<close>: the generator extracts each chunk and yields the text when it is not empty.
  An exception of the extractor ends the generator with that error; the texts yielded
  before it have been delivered.
\<close>

fun streamable ::
  "'t trimmer \<Rightarrow> 't ExtractState \<Rightarrow> Chunk list \<Rightarrow> string list \<times> error option" where
  "streamable tr st [] = ([], None)"
| "streamable tr st (chunk # rest) =
     (case chunkToText tr st chunk of
        Inl e \<Rightarrow> ([], Some e)
      | Inr (txt, st') \<Rightarrow>
          (let (ys, r) = streamable tr st' rest
           in ((if txt \<noteq> [] then [txt] else []) @ ys, r)))"


subsection \<open>The start-of-stream trimmer of the package\<close>

text \<open>
  \<^verbatim>\<open>trimStartOfStreamHelper\<close> is imported from the package \<^verbatim>\<open>ai\<close> and is not part of the
  repository. Every definition above takes the trimmer as a parameter; the instance below is
  the one the package ships: while the stream is at its start, \<^verbatim>\<open>text.trimStart()\<close>; the
  start is over once a text is left non-empty.
\<close>

definition isWhiteSpace :: "char \<Rightarrow> bool" where
  "isWhiteSpace c =
     (c \<in> {CHR 0x09, CHR 0x0A, CHR 0x0B, CHR 0x0C, CHR 0x0D, CHR 0x20, CHR 0xA0})"

definition trimStartOfStreamHelper :: "bool trimmer" where
  "trimStartOfStreamHelper isStreamStart txt =
     (if isStreamStart
      then (let t = dropWhile isWhiteSpace txt in (t, t = []))
      else (txt, False))"

text \<open>The texts a trimmer lets through when it is fed a sequence of texts.\<close>

fun run_trimmer :: "'t trimmer \<Rightarrow> 't \<Rightarrow> string list \<Rightarrow> string list" where
  "run_trimmer tr t [] = []"
| "run_trimmer tr t (x # xs) = (let (out, t') = tr t x in out # run_trimmer tr t' xs)"

text \<open>
  \<^verbatim>\<open>choices[0].delta.content\<close> of a chunk as the text it contributes: the string when it is a
  non-empty string, nothing otherwise.
\<close>

definition delta_content :: "Chunk \<Rightarrow> string" where
  "delta_content json =
     (case choices json of
        Some (c # _) \<Rightarrow>
          (case delta c of
             Some d \<Rightarrow> (if js_truthy (content d) then template (content d) else [])
           | None \<Rightarrow> [])
      | _ \<Rightarrow> [])"

text \<open>
  A plain-text chat chunk: a chat chunk (and not also a legacy one) that carries no
  function-call fragment and no side-channel field.
\<close>

definition plain_text_chunk :: "Chunk \<Rightarrow> bool" where
  "plain_text_chunk json =
     (isChatCompletionChunk json \<and> \<not> isCompletion json \<and>
      \<not> truthy (function_call_name json) \<and> \<not> truthy (function_call_arguments json) \<and>
      conversation_id json = None \<and> parent_message_id json = None)"

section \<open>JSON string literals\<close>

text \<open>
  The buffered function call is read back with \<^verbatim>\<open>JSON.parse\<close>, a built-in of the runtime.
  What it does to a text that is one string literal is fixed by the JSON grammar (ECMA-404,
  sections 4 and 9): white space (space, tab, line feed, carriage return) may stand before
  and after the literal; the literal ends at the first unescaped quote; a backslash starts
  one of the escapes \<^verbatim>\<open>\" \\ \/ \b \f \n \r \t \uXXXX\<close>; a character below U+0020 may not
  appear unescaped. The value is the string as a list of code units: a character of the
  text stands for its own code, and \<^verbatim>\<open>\uXXXX\<close> for any code up to \<^verbatim>\<open>FFFF\<close>.
\<close>

definition isJSONWhiteSpace :: "char \<Rightarrow> bool" where
  "isJSONWhiteSpace c = (c \<in> {CHR 0x20, CHR 0x09, CHR 0x0A, CHR 0x0D})"

definition hex_digit :: "char \<Rightarrow> nat option" where
  "hex_digit c =
     (let n = (of_char c :: nat)
      in if 48 \<le> n \<and> n \<le> 57 then Some (n - 48)
         else if 97 \<le> n \<and> n \<le> 102 then Some (n - 87)
         else if 65 \<le> n \<and> n \<le> 70 then Some (n - 55)
         else None)"

definition hex4 :: "string \<Rightarrow> nat option" where
  "hex4 s =
     (case map hex_digit s of
        [Some a, Some b, Some c, Some d] \<Rightarrow> Some (((a * 16 + b) * 16 + c) * 16 + d)
      | _ \<Rightarrow> None)"

definition unescape_char :: "char \<Rightarrow> char option" where
  "unescape_char e =
     (if e = dquote then Some dquote
      else if e = backslash then Some backslash
      else if e = CHR ''/'' then Some (CHR ''/'')
      else if e = CHR ''b'' then Some (CHR 0x08)
      else if e = CHR ''f'' then Some (CHR 0x0C)
      else if e = CHR ''n'' then Some (CHR 0x0A)
      else if e = CHR ''r'' then Some (CHR 0x0D)
      else if e = CHR ''t'' then Some (CHR 0x09)
      else None)"

text \<open>The characters after the opening quote: the value, when the literal is well formed.\<close>

fun JSON_string_chars :: "string \<Rightarrow> nat list option" where
  "JSON_string_chars [] = None"
| "JSON_string_chars (c # cs) =
     (if c = dquote then (if list_all isJSONWhiteSpace cs then Some [] else None)
      else if c = backslash then
        (case cs of
           [] \<Rightarrow> None
         | e # r \<Rightarrow>
             if e = CHR ''u'' then
               (case hex4 (take 4 r) of
                  None \<Rightarrow> None
                | Some v \<Rightarrow> map_option ((#) v) (JSON_string_chars (drop 4 r)))
             else
               (case unescape_char e of
                  None \<Rightarrow> None
                | Some d \<Rightarrow> map_option ((#) (of_char d)) (JSON_string_chars r)))
      else if (of_char c :: nat) < 0x20 then None
      else map_option ((#) (of_char c)) (JSON_string_chars cs))"

definition JSON_parse_string :: "string \<Rightarrow> nat list option" where
  "JSON_parse_string s =
     (case dropWhile isJSONWhiteSpace s of
        [] \<Rightarrow> None
      | q # rest \<Rightarrow> if q = dquote then JSON_string_chars rest else None)"

text \<open>The code units of a text of the model.\<close>

definition code_units :: "string \<Rightarrow> nat list" where
  "code_units s = map of_char s"

text \<open>What the seven replacements do to one character.\<close>

definition escape_char :: "char \<Rightarrow> string" where
  "escape_char c =
     (if c = backslash then [backslash, backslash]
      else if c = CHR ''/'' then [backslash, CHR ''/'']
      else if c = dquote then [backslash, dquote]
      else if c = CHR 0x0A then [backslash, CHR ''n'']
      else if c = CHR 0x0D then [backslash, CHR ''r'']
      else if c = CHR 0x09 then [backslash, CHR ''t'']
      else if c = CHR 0x0C then [backslash, CHR ''f'']
      else [c])"


text \<open>The characters the round trip is proved for: no control character but the four escaped ones.\<close>

definition json_safe :: "char \<Rightarrow> bool" where
  "json_safe c = ((0x20::nat) \<le> of_char c \<or> c \<in> {CHR 0x0A, CHR 0x0D, CHR 0x09, CHR 0x0C})"


section \<open>Output multiplexer\<close>

datatype stream_part = text_part | function_call_part | data_part

definition StreamStringPrefixes :: "stream_part \<Rightarrow> char" where
  "StreamStringPrefixes type =
     (case type of text_part \<Rightarrow> CHR ''0'' | function_call_part \<Rightarrow> CHR ''1'' | data_part \<Rightarrow> CHR ''2'')"

text \<open>
  \<^verbatim>\<open>JSON.stringify\<close> of a string (ECMA-262, QuoteJSONString): the text between quotes, with
  the quote, the backslash and the characters below U+0020 escaped. Every value this file
  passes to \<^verbatim>\<open>getStreamString\<close> is a string.
\<close>

definition hex_char :: "nat \<Rightarrow> char" where
  "hex_char n = ''0123456789abcdef'' ! (n mod 16)"

definition quote_char :: "char \<Rightarrow> string" where
  "quote_char c =
     (if c = CHR 0x08 then [backslash, CHR ''b'']
      else if c = CHR 0x09 then [backslash, CHR ''t'']
      else if c = CHR 0x0A then [backslash, CHR ''n'']
      else if c = CHR 0x0C then [backslash, CHR ''f'']
      else if c = CHR 0x0D then [backslash, CHR ''r'']
      else if c = dquote then [backslash, dquote]
      else if c = backslash then [backslash, backslash]
      else if (of_char c :: nat) < 0x20
        then [backslash, CHR ''u'', CHR ''0'', CHR ''0'',
              hex_char (of_char c div 16), hex_char (of_char c)]
      else [c])"

definition JSON_stringify :: "string \<Rightarrow> string" where
  "JSON_stringify v = [dquote] @ concat (map quote_char v) @ [dquote]"

definition getStreamString :: "stream_part \<Rightarrow> string \<Rightarrow> string" where
  "getStreamString type v = [StreamStringPrefixes type] @ '':'' @ JSON_stringify v @ [CHR 0x0A]"

section \<open>Function-call aggregator\<close>

text \<open>
  The transformer works on byte chunks; \<^verbatim>\<open>decode(chunk)\<close> and \<^verbatim>\<open>textEncoder.encode\<close> are
  inverse to each other on the texts that flow here, so a chunk is modelled by its text.
\<close>

record TransformerState =
  isFirstChunk :: bool
  aggregatedResponse :: string
  aggregatedFinalCompletionResponse :: string
  isFunctionStreamingIn :: bool

definition initial_state :: TransformerState where
  "initial_state =
     \<lparr>isFirstChunk = True, aggregatedResponse = [],
      aggregatedFinalCompletionResponse = [], isFunctionStreamingIn = False\<rparr>"

definition startsWith :: "string \<Rightarrow> string \<Rightarrow> bool" where
  "startsWith message p = (take (length p) message = p)"

definition function_call_marker :: string where
  \<open>function_call_marker = ''{"function_call":''\<close>

text \<open>\<^verbatim>\<open>transform(chunk, controller)\<close>: the new state and the chunks it enqueues.\<close>

definition transform ::
  "bool \<Rightarrow> TransformerState \<Rightarrow> string \<Rightarrow> TransformerState \<times> string list" where
  "transform isComplexMode s chunk =
     (let message = chunk;
          s1 = s\<lparr>aggregatedFinalCompletionResponse :=
                   aggregatedFinalCompletionResponse s @ message\<rparr>;
          shouldHandleAsFunction = (isFirstChunk s1 \<and> startsWith message function_call_marker)
      in if shouldHandleAsFunction then
           (s1\<lparr>isFunctionStreamingIn := True,
               aggregatedResponse := aggregatedResponse s1 @ message,
               isFirstChunk := False\<rparr>, [])
         else if \<not> isFunctionStreamingIn s1 then
           (s1, [if isComplexMode then getStreamString text_part message else chunk])
         else
           (s1\<lparr>aggregatedResponse := aggregatedResponse s1 @ message\<rparr>, []))"

fun transform_all ::
  "bool \<Rightarrow> TransformerState \<Rightarrow> string list \<Rightarrow> TransformerState \<times> string list" where
  "transform_all isComplexMode s [] = (s, [])"
| "transform_all isComplexMode s (chunk # rest) =
     (let (s1, out1) = transform isComplexMode s chunk;
          (s2, out2) = transform_all isComplexMode s1 rest
      in (s2, out1 @ out2))"

subsection \<open>Callbacks, handler and messages\<close>

text \<open>
  JSON values that the code only hands on (the parsed call, the handler's payload) have
  the abstract type \<open>'j\<close>.
\<close>

datatype role = System | User | Assistant | Function

record 'j CreateMessage =
  message_role :: role
  message_content :: string
  message_name :: "'j option"
  message_function_call :: "'j option"

text \<open>
  What the first two statements of the \<^verbatim>\<open>if\<close> in \<^verbatim>\<open>flush\<close> produce:
  \<^verbatim>\<open>payload = JSON.parse(aggregatedResponse)\<close> and
  \<^verbatim>\<open>argumentsPayload = JSON.parse(payload.function_call.arguments)\<close>, with the two values
  read from \<^verbatim>\<open>payload\<close> later on. \<^verbatim>\<open>JSON.parse\<close> is a built-in of the runtime, so the pair
  of statements is a parameter of the model, of type \<open>string \<Rightarrow> error + 'j ParsedCall\<close>:
  \<open>Inl\<close> is the exception either statement throws.
\<close>

record 'j ParsedCall =
  payload_function_call :: 'j
  payload_function_call_name :: 'j
  argumentsPayload :: 'j

text \<open>The object handed to the handler: \<^verbatim>\<open>name\<close> and \<^verbatim>\<open>arguments\<close>, in this order.\<close>

datatype 'j FunctionCallPayload = FunctionCallPayload 'j 'j

text \<open>
  The value the handler resolves to: nothing, a string, or a new stream of chunks (an
  async iterable). A \<^verbatim>\<open>Response\<close> object would be read through the package's \<^verbatim>\<open>AIStream\<close>
  and is not modelled.
\<close>

datatype function_response =
  NoResponse | ResponseString string | ResponseStream "Chunk list"

text \<open>
  One call of the handler either rejects or resolves. While it runs it may call
  \<^verbatim>\<open>createFunctionCallMessages(result)\<close>; the first component of \<open>Resolves\<close> is
  \<^verbatim>\<open>JSON.stringify(result)\<close> for the last such call, \<open>None\<close> when there was none. The handler
  is given the payload and, through the message builder, the messages collected so far.
\<close>

datatype handler_outcome = Rejects | Resolves "string option" function_response

type_synonym 'j handler =
  "'j FunctionCallPayload \<Rightarrow> 'j CreateMessage list \<Rightarrow> handler_outcome"

text \<open>
  The callbacks object. \<^verbatim>\<open>onStart\<close> and \<^verbatim>\<open>onFinal\<close> are recorded as present or absent; what a
  present callback does is to appear in the trace. \<^verbatim>\<open>OpenAIStream\<close> installs the function-call
  transformer only when \<^verbatim>\<open>experimental_onFunctionCall\<close> is set, and that configuration is the
  one modelled: the handler is always there, so the two tests of it in \<^verbatim>\<open>flush\<close> are true.
\<close>

record 'j OpenAIStreamCallbacks =
  onStart :: bool
  onFinal :: bool
  experimental_streamData :: bool
  experimental_onFunctionCall :: "'j handler"

text \<open>
  The observable effects of a run, in the order each stream produces them: the callbacks
  fired and the chunks enqueued for the caller. \<^verbatim>\<open>onToken\<close>, \<^verbatim>\<open>onCompletion\<close> and \<^verbatim>\<open>onChunk\<close>
  are fired by the package's callback transformer and by \<^verbatim>\<open>streamable\<close>; they are not recorded.
\<close>

datatype effect = OnStart | Enqueue string | OnFinal string

type_synonym run = "effect list \<times> error option"

text \<open>The \<^verbatim>\<open>finally\<close> block of \<^verbatim>\<open>flush\<close>.\<close>

definition finally_block :: "bool \<Rightarrow> TransformerState \<Rightarrow> effect list" where
  "finally_block onFinal_set s =
     (if onFinal_set \<and> aggregatedFinalCompletionResponse s \<noteq> []
      then [OnFinal (aggregatedFinalCompletionResponse s)] else [])"

text \<open>
  The message list handed to the continuation: the messages so far, followed by the
  assistant's call and the function's result when the handler has called the message
  builder.
\<close>

definition newFunctionCallMessages ::
  "'j CreateMessage list \<Rightarrow> 'j ParsedCall \<Rightarrow> string option \<Rightarrow> 'j CreateMessage list" where
  "newFunctionCallMessages functionCallMessages payload built =
     (case built of
        None \<Rightarrow> functionCallMessages
      | Some result \<Rightarrow>
          functionCallMessages @
          [\<lparr>message_role = Assistant, message_content = [], message_name = None,
            message_function_call = Some (payload_function_call payload)\<rparr>,
           \<lparr>message_role = Function, message_content = result,
            message_name = Some (payload_function_call_name payload),
            message_function_call = None\<rparr>])"

text \<open>
  \<^verbatim>\<open>flush(controller)\<close>. The first argument stands for the recursive call of \<^verbatim>\<open>OpenAIStream\<close>
  on the continuation; its result \<open>None\<close> means that the continuation did not come to an end.
  An exception leaves the \<^verbatim>\<open>try\<close> block at once, runs the \<^verbatim>\<open>finally\<close> block and is the result of
  \<^verbatim>\<open>flush\<close>: there is no \<^verbatim>\<open>catch\<close>. On the continuation path \<^verbatim>\<open>callbacks.onFinal = undefined\<close>
  is executed after \<^verbatim>\<open>filteredCallbacks\<close> has been copied, so the continuation keeps the
  callback and the \<^verbatim>\<open>finally\<close> block of this stream finds none. The assignment
  \<^verbatim>\<open>isFunctionStreamingIn = false\<close> is left out: nothing reads the variable afterwards.
\<close>

definition flush ::
  "('j OpenAIStreamCallbacks \<Rightarrow> 'j CreateMessage list \<Rightarrow> Chunk list \<Rightarrow> run option) \<Rightarrow>
   (string \<Rightarrow> error + 'j ParsedCall) \<Rightarrow>
   'j OpenAIStreamCallbacks \<Rightarrow> 'j CreateMessage list \<Rightarrow> TransformerState \<Rightarrow> run option" where
  "flush OpenAIStream_rec JSON_parse callbacks functionCallMessages s =
     (let isComplexMode = experimental_streamData callbacks;
          isEndOfFunction = (\<not> isFirstChunk s \<and> isFunctionStreamingIn s)
      in if isEndOfFunction then
           (case JSON_parse (aggregatedResponse s) of
              Inl e \<Rightarrow> Some (finally_block (onFinal callbacks) s, Some e)
            | Inr payload \<Rightarrow>
                (case experimental_onFunctionCall callbacks
                        (FunctionCallPayload (payload_function_call_name payload)
                                             (argumentsPayload payload))
                        functionCallMessages of
                   Rejects \<Rightarrow> Some (finally_block (onFinal callbacks) s, Some HandlerError)
                 | Resolves built functionResponse \<Rightarrow>
                     (case functionResponse of
                        NoResponse \<Rightarrow>
                          Some (Enqueue (if isComplexMode
                                         then getStreamString function_call_part
                                                (aggregatedResponse s)
                                         else aggregatedResponse s)
                                # finally_block (onFinal callbacks) s, None)
                      | ResponseString str \<Rightarrow>
                          if str = [] then
                            Some (Enqueue (if isComplexMode
                                           then getStreamString function_call_part
                                                  (aggregatedResponse s)
                                           else aggregatedResponse s)
                                  # finally_block (onFinal callbacks) s, None)
                          else
                            Some (Enqueue (if isComplexMode
                                           then getStreamString text_part str
                                           else str)
                                  # finally_block (onFinal callbacks) s, None)
                      | ResponseStream res \<Rightarrow>
                          (case OpenAIStream_rec (callbacks\<lparr>onStart := False\<rparr>)
                                  (newFunctionCallMessages functionCallMessages payload built)
                                  res of
                             None \<Rightarrow> None
                           | Some (relayed, failure) \<Rightarrow>
                               Some (relayed @ finally_block False s, failure)))))
         else Some (finally_block (onFinal callbacks) s, None))"

text \<open>
  \<^verbatim>\<open>OpenAIStream(res, callbacks)\<close> for an async iterable \<^verbatim>\<open>res\<close>: \<^verbatim>\<open>streamable\<close> with a fresh
  extractor, the package's callback transformer (it fires \<^verbatim>\<open>onStart\<close> when the stream is
  set up and hands every text on; it is given \<^verbatim>\<open>onFinal: undefined\<close>), then the function-call
  transformer. When the extractor throws, the stream is in error: the transformer's \<^verbatim>\<open>flush\<close>
  does not run. A handler may answer every call with a stream that calls again, so the
  recursion need not end; the first argument bounds the number of nested streams, and \<open>None\<close>
  says that the bound was reached.
\<close>

primrec OpenAIStream ::
  "nat \<Rightarrow> 't trimmer \<Rightarrow> 't \<Rightarrow> (string \<Rightarrow> error + 'j ParsedCall) \<Rightarrow>
   'j OpenAIStreamCallbacks \<Rightarrow> 'j CreateMessage list \<Rightarrow> Chunk list \<Rightarrow> run option" where
  "OpenAIStream 0 trimStartOfStream t0 JSON_parse cb messages res = None"
| "OpenAIStream (Suc depth) trimStartOfStream t0 JSON_parse cb messages res =
     (let (texts, failure) =
            streamable trimStartOfStream \<lparr>trimState = t0, isFunctionStreamingIn_x = False\<rparr> res;
          (s, out) = transform_all (experimental_streamData cb) initial_state texts;
          started = (if onStart cb then [OnStart] else []) @ map Enqueue out
      in case failure of
           Some e \<Rightarrow> Some (started, Some e)
         | None \<Rightarrow>
             (case flush (OpenAIStream depth trimStartOfStream t0 JSON_parse) JSON_parse
                     cb messages s of
                None \<Rightarrow> None
              | Some (effects, err) \<Rightarrow> Some (started @ effects, err)))"

text \<open>A text as it is enqueued on the pass-through path.\<close>

definition text_event :: "bool \<Rightarrow> string \<Rightarrow> string" where
  "text_event isComplexMode message =
     (if isComplexMode then getStreamString text_part message else message)"

text \<open>
  \<^verbatim>\<open>flush\<close> takes the continuation path: a call was buffered, it parses, and the handler
  resolves to a stream.
\<close>

definition splices_continuation ::
  "(string \<Rightarrow> error + 'j ParsedCall) \<Rightarrow> 'j OpenAIStreamCallbacks \<Rightarrow>
   'j CreateMessage list \<Rightarrow> TransformerState \<Rightarrow> bool" where
  "splices_continuation JSON_parse callbacks functionCallMessages s =
     (\<not> isFirstChunk s \<and> isFunctionStreamingIn s \<and>
      (case JSON_parse (aggregatedResponse s) of
         Inl e \<Rightarrow> False
       | Inr payload \<Rightarrow>
           (case experimental_onFunctionCall callbacks
                   (FunctionCallPayload (payload_function_call_name payload)
                                        (argumentsPayload payload))
                   functionCallMessages of
              Resolves built (ResponseStream res) \<Rightarrow> True
            | _ \<Rightarrow> False)))"

definition is_Enqueue :: "effect \<Rightarrow> bool" where
  "is_Enqueue e = (case e of Enqueue x \<Rightarrow> True | _ \<Rightarrow> False)"

section \<open>Example streams\<close>

text \<open>A chat chunk with one choice and no side-channel field.\<close>

definition chat_chunk ::
  "js_string \<Rightarrow> FunctionCall option \<Rightarrow> finish_reason option \<Rightarrow> Chunk" where
  "chat_chunk c f r =
     \<lparr>choices = Some [\<lparr>delta = Some \<lparr>content = c, function_call = f\<rparr>,
                       finish_reason = r, text_field = None\<rparr>],
      conversation_id = None, parent_message_id = None\<rparr>"

text \<open>A function call as the provider streams it: name, arguments, end.\<close>

definition call_stream :: "Chunk list" where
  "call_stream =
     [chat_chunk Null (Some \<lparr>arguments = Some [], name = Some ''get_weather''\<rparr>) None,
      chat_chunk Undefined (Some \<lparr>arguments = Some ''{}'', name = None\<rparr>) None,
      chat_chunk Undefined None (Some Function_Call)]"

definition call_text :: string where
  \<open>call_text = ''{"function_call": {"name": "get_weather", "arguments": "{}"}}''\<close>

text \<open>The same call cut off before its end: the stream closes while the arguments arrive.\<close>

definition truncated_call_stream :: "Chunk list" where
  "truncated_call_stream = take 2 call_stream"

definition truncated_call_text :: string where
  \<open>truncated_call_text = ''{"function_call": {"name": "get_weather", "arguments": "{}''\<close>

text \<open>A greeting, and a completion without text.\<close>

definition hi_stream :: "Chunk list" where
  "hi_stream = [chat_chunk (Str ''Hi'') None None, chat_chunk Undefined None (Some Stop)]"


text \<open>A greeting followed by a function call.\<close>

definition hi_then_call_stream :: "Chunk list" where
  "hi_then_call_stream = chat_chunk (Str ''Hi'') None None # call_stream"

text \<open>
  \<^verbatim>\<open>JSON.parse\<close> at the two buffered texts of the examples, with JSON values written as
  JSON text: \<open>call_text\<close> is an object whose \<^verbatim>\<open>function_call\<close> has the name
  \<^verbatim>\<open>"get_weather"\<close> and the arguments \<^verbatim>\<open>"{}"\<close>, which parse to the empty object;
  \<open>truncated_call_text\<close> ends inside a string literal and is a syntax error. No example
  applies it to another text.
\<close>

definition example_call :: "string ParsedCall" where
  \<open>example_call =
     \<lparr>payload_function_call = ''{"name":"get_weather","arguments":"{}"}'',
      payload_function_call_name = ''"get_weather"'',
      argumentsPayload = ''{}''\<rparr>\<close>

definition example_JSON_parse :: "string \<Rightarrow> error + string ParsedCall" where
  "example_JSON_parse s = (if s = call_text then Inr example_call else Inl SyntaxError)"

text \<open>Handlers: one that leaves the call to the client, one that answers with a new stream.\<close>

definition handler_declines :: "string handler" where
  "handler_declines payload msgs = Resolves None NoResponse"

definition handler_continues :: "Chunk list \<Rightarrow> string handler" where
  \<open>handler_continues res payload msgs = Resolves (Some ''"sunny"'') (ResponseStream res)\<close>

definition example_callbacks :: "bool \<Rightarrow> string handler \<Rightarrow> string OpenAIStreamCallbacks" where
  "example_callbacks isComplexMode h =
     \<lparr>onStart = False, onFinal = True, experimental_streamData = isComplexMode,
      experimental_onFunctionCall = h\<rparr>"

text \<open>A legacy completion chunk: its choice has a text and no delta.\<close>

definition legacy_chunk :: Chunk where
  "legacy_chunk =
     \<lparr>choices = Some [\<lparr>delta = None, finish_reason = None, text_field = Some ''Hello''\<rparr>],
      conversation_id = None, parent_message_id = None\<rparr>"

text \<open>An event of neither shape: its choice has a finish reason only.\<close>

definition bare_stop_chunk :: Chunk where
  "bare_stop_chunk =
     \<lparr>choices = Some [\<lparr>delta = None, finish_reason = Some Stop, text_field = None\<rparr>],
      conversation_id = None, parent_message_id = None\<rparr>"



text \<open>The extractor state of a fresh \<^verbatim>\<open>chunkToText()\<close> with the package's trimmer.\<close>

definition fresh_extractor :: "bool ExtractState" where
  "fresh_extractor = \<lparr>trimState = True, isFunctionStreamingIn_x = False\<rparr>"


text \<open>Two content chunks and the closing chunk of a chat completion.\<close>

definition hello_stream :: "Chunk list" where
  "hello_stream =
     [chat_chunk (Str ''Hel'') None None, chat_chunk (Str ''lo'') None None,
      chat_chunk Undefined None (Some Stop)]"

text \<open>The extractor while a function call streams in.\<close>

definition streaming_extractor :: "bool ExtractState" where
  "streaming_extractor = \<lparr>trimState = True, isFunctionStreamingIn_x = True\<rparr>"

text \<open>A legacy completion chunk that ends the completion.\<close>

definition legacy_stop_chunk :: Chunk where
  "legacy_stop_chunk =
     \<lparr>choices = Some [\<lparr>delta = None, finish_reason = Some Stop, text_field = Some ''Hello''\<rparr>],
      conversation_id = None, parent_message_id = None\<rparr>"

text \<open>A completion whose only content starts with a space, and one with two padded tokens.\<close>

definition spaced_hi_stream :: "Chunk list" where
  "spaced_hi_stream = [chat_chunk (Str '' Hi'') None None]"

definition padded_hello_stream :: "Chunk list" where
  "padded_hello_stream =
     [chat_chunk (Str '' '') None None, chat_chunk (Str '' Hel'') None None,
      chat_chunk (Str ''lo'') None None, chat_chunk Undefined None (Some Stop)]"

text \<open>
  The trim as the specification words it, on the sequence of contents: one leading token
  is dropped when it is empty or white space only, and nothing else is changed.
\<close>

definition single_leading_empty_token_trim :: "string list \<Rightarrow> string list" where
  "single_leading_empty_token_trim contents =
     (case contents of
        [] \<Rightarrow> []
      | x # rest \<Rightarrow> if list_all isWhiteSpace x then rest else x # rest)"




definition handler_continues_twice :: "string handler" where
  \<open>handler_continues_twice payload msgs =
     (case msgs of
        [] \<Rightarrow> Resolves (Some ''"sunny"'') (ResponseStream call_stream)
      | _ \<Rightarrow> Resolves (Some ''"sunny"'') (ResponseStream hi_stream))\<close>

section \<open>Properties of the text extractor\<close>

subsection \<open>Chunks without a delta\<close>

text \<open>
  Claim C10, as the code has it. For every chunk whose first choice has no \<^verbatim>\<open>delta\<close> (a
  legacy completion chunk with only a \<^verbatim>\<open>text\<close> in particular), the plain-content path reads
  \<^verbatim>\<open>choices[0].delta.content\<close> without a guard and fails with a TypeError instead of
  returning the text. There is one exception: while a function call is streaming in, such
  a chunk with the finish reason \<^verbatim>\<open>function_call\<close> or \<^verbatim>\<open>stop\<close> is taken for the end of the call
  before that read, and the extractor returns the closing \<^verbatim>\<open>"}}\<close>. Every other text the
  extractor returns comes from a chunk whose first choice has a \<^verbatim>\<open>delta\<close>, so the branch that
  returns \<^verbatim>\<open>choices[0].text\<close> is reached only for such chunks.
\<close>

theorem legacy_chunk_extraction_fails:
  "(choices json = Some (c # cs) \<and> delta c = None \<longrightarrow>
      plain_content json = Inl TypeError \<and>
      chunkToText tr st json =
        (if isFunctionStreamingIn_x st \<and>
            (finish_reason c = Some Function_Call \<or> finish_reason c = Some Stop)
         then Inr (function_call_close, st\<lparr>isFunctionStreamingIn_x := False\<rparr>)
         else Inl TypeError)) \<and>
   (chunkToText tr st json = Inr (out, st') \<and>
    finishes_call (isFunctionStreamingIn_x st) json \<noteq> Inr True \<longrightarrow>
      (\<exists>c' cs' d. choices json = Some (c' # cs') \<and> delta c' = Some d))"
  by (auto simp: plain_content_def chunkToText_def isChatCompletionChunk_def finishes_call_def
       split: option.splits list.splits sum.splits bool.splits if_splits)

theorem legacy_chunk_extraction_fails_witness:
  "chunkToText trimStartOfStreamHelper fresh_extractor legacy_chunk = Inl TypeError \<and>
   chunkToText trimStartOfStreamHelper fresh_extractor (chat_chunk (Str ''Hi'') None None) =
     Inr (''Hi'', fresh_extractor\<lparr>trimState := False\<rparr>) \<and>
   (\<exists>c' cs' d. choices (chat_chunk (Str ''Hi'') None None) = Some (c' # cs') \<and>
                delta c' = Some d)"
proof -
  have a: "choices legacy_chunk =
             Some (\<lparr>delta = None, finish_reason = None, text_field = Some ''Hello''\<rparr> # []) \<and>
           delta \<lparr>delta = None, finish_reason = None, text_field = Some ''Hello''\<rparr> = None"
    by (simp add: legacy_chunk_def)
  have b: "chunkToText trimStartOfStreamHelper fresh_extractor
             (chat_chunk (Str ''Hi'') None None) =
           Inr (''Hi'', fresh_extractor\<lparr>trimState := False\<rparr>)"
    by code_simp
  have c: "finishes_call (isFunctionStreamingIn_x fresh_extractor)
             (chat_chunk (Str ''Hi'') None None) \<noteq> Inr True"
    by code_simp
  show ?thesis
    using a b c
      legacy_chunk_extraction_fails
        [of legacy_chunk "\<lparr>delta = None, finish_reason = None, text_field = Some ''Hello''\<rparr>"
            "[]" trimStartOfStreamHelper fresh_extractor]
      legacy_chunk_extraction_fails
        [of "chat_chunk (Str ''Hi'') None None" _ _ trimStartOfStreamHelper fresh_extractor
            "''Hi''" "fresh_extractor\<lparr>trimState := False\<rparr>"]
    by (simp add: fresh_extractor_def)
qed

text \<open>
  Claim C10 as stated fails: after the name of a function call has been extracted, a
  legacy chunk with a text, no \<^verbatim>\<open>delta\<close> and the finish reason \<^verbatim>\<open>stop\<close> does not make the
  extraction fail; it is answered with the closing of the call, and the stream goes on.
\<close>

theorem legacy_stop_closes_call:
  "isCompletion legacy_stop_chunk \<and> \<not> isChatCompletionChunk legacy_stop_chunk \<and>
   chunkToText trimStartOfStreamHelper streaming_extractor legacy_stop_chunk =
     Inr (function_call_close, fresh_extractor) \<and>
   streamable trimStartOfStreamHelper fresh_extractor [hd call_stream, legacy_stop_chunk] =
     ([function_call_open ''get_weather'', function_call_close], None)"
  by code_simp

subsection \<open>Side-channel fields\<close>



subsection \<open>Events of neither shape\<close>

text \<open>
  Claim C6, as the code has it. An event that is neither a chat chunk nor a legacy chunk
  makes the extractor throw a TypeError, which ends the stream in error before anything is
  yielded for it; it is never turned into an empty text. There is one exception: while a
  function call is streaming in, an event whose first choice has the finish reason
  \<^verbatim>\<open>function_call\<close> or \<^verbatim>\<open>stop\<close> is taken as the end of the call, whatever its shape, and the
  extractor returns the closing \<^verbatim>\<open>"}}\<close> without an error.
\<close>

theorem unclassified_event_throws_or_closes:
  assumes "\<not> isChatCompletionChunk json" and "\<not> isCompletion json"
  shows "chunkToText tr st json =
           (if finishes_call (isFunctionStreamingIn_x st) json = Inr True
            then Inr (function_call_close, st\<lparr>isFunctionStreamingIn_x := False\<rparr>)
            else Inl TypeError) \<and>
         (finishes_call (isFunctionStreamingIn_x st) json \<noteq> Inr True \<longrightarrow>
            streamable tr st (json # rest) = ([], Some TypeError))"
  using assms
  by (auto simp: plain_content_def chunkToText_def isChatCompletionChunk_def finishes_call_def
       split: option.splits list.splits sum.splits bool.splits)

theorem unclassified_event_throws_or_closes_witness:
  "\<not> isChatCompletionChunk bare_stop_chunk \<and> \<not> isCompletion bare_stop_chunk \<and>
   chunkToText trimStartOfStreamHelper fresh_extractor bare_stop_chunk = Inl TypeError \<and>
   streamable trimStartOfStreamHelper fresh_extractor (bare_stop_chunk # hello_stream) =
     ([], Some TypeError)"
proof -
  have a: "\<not> isChatCompletionChunk bare_stop_chunk"
    by (simp add: isChatCompletionChunk_def bare_stop_chunk_def)
  have b: "\<not> isCompletion bare_stop_chunk"
    by (simp add: isCompletion_def bare_stop_chunk_def)
  have c: "finishes_call (isFunctionStreamingIn_x fresh_extractor) bare_stop_chunk \<noteq> Inr True"
    by (simp add: finishes_call_def fresh_extractor_def)
  show ?thesis
    using a b c
      unclassified_event_throws_or_closes
        [OF a b, of trimStartOfStreamHelper fresh_extractor hello_stream]
    by simp
qed

text \<open>
  Claim C6 as stated fails: after the name of a function call has been extracted, an
  event whose only choice has a finish reason and neither \<^verbatim>\<open>delta\<close> nor \<^verbatim>\<open>text\<close> is accepted,
  and the stream goes on without an error.
\<close>

theorem bare_stop_closes_call:
  "\<not> isChatCompletionChunk bare_stop_chunk \<and> \<not> isCompletion bare_stop_chunk \<and>
   chunkToText trimStartOfStreamHelper streaming_extractor bare_stop_chunk =
     Inr (function_call_close, fresh_extractor) \<and>
   streamable trimStartOfStreamHelper fresh_extractor [hd call_stream, bare_stop_chunk] =
     ([function_call_open ''get_weather'', function_call_close], None)"
  by code_simp

subsection \<open>Plain-text streams\<close>

lemma chunkToText_plain_text_chunk:
  assumes "plain_text_chunk json" and "\<not> isFunctionStreamingIn_x st"
  shows "chunkToText tr st json =
     Inr (fst (tr (trimState st) (delta_content json)),
          st\<lparr>trimState := snd (tr (trimState st) (delta_content json))\<rparr>)"
  using assms
  by (auto simp: plain_text_chunk_def plain_content_def chunkToText_def template_def js_truthy_def
        isChatCompletionChunk_def isCompletion_def finishes_call_def delta_content_def truthy_def
       split: option.splits list.splits sum.splits bool.splits prod.splits js_string.splits)

text \<open>
  Whatever the trimmer: for a stream of plain-text chat chunks, read by an extractor that
  is not inside a function call, the texts that \<^verbatim>\<open>streamable\<close> yields, concatenated, are the
  \<^verbatim>\<open>delta.content\<close> fields of the chunks, concatenated, after each has gone through the
  trimmer; and the stream ends without an error.
\<close>

lemma plain_text_through_trimmer:
  assumes "\<forall>json \<in> set chunks. plain_text_chunk json" and "\<not> isFunctionStreamingIn_x st"
  shows "concat (fst (streamable tr st chunks)) =
           concat (run_trimmer tr (trimState st) (map delta_content chunks)) \<and>
         snd (streamable tr st chunks) = None"
  using assms
proof (induction chunks arbitrary: st)
  case Nil
  then show ?case by simp
next
  case (Cons json rest)
  let ?st' = "st\<lparr>trimState := snd (tr (trimState st) (delta_content json))\<rparr>"
  have step: "chunkToText tr st json = Inr (fst (tr (trimState st) (delta_content json)), ?st')"
    using Cons.prems by (simp add: chunkToText_plain_text_chunk)
  have "\<not> isFunctionStreamingIn_x ?st'"
    using Cons.prems by simp
  with Cons have IH:
    "concat (fst (streamable tr ?st' rest)) =
       concat (run_trimmer tr (trimState ?st') (map delta_content rest)) \<and>
     snd (streamable tr ?st' rest) = None"
    by simp
  show ?case
    using IH by (auto simp add: step split: prod.splits)
qed

text \<open>
  With the trimmer of the package, the trimmed concatenation is the concatenation without
  its leading white space.
\<close>

lemma trimStartOfStreamHelper_started:
  "concat (run_trimmer trimStartOfStreamHelper False xs) = concat xs"
  by (induction xs) (auto simp: trimStartOfStreamHelper_def)

lemma trimStartOfStreamHelper_at_start:
  "trimStartOfStreamHelper True x = (dropWhile isWhiteSpace x, dropWhile isWhiteSpace x = [])"
  by (simp add: trimStartOfStreamHelper_def Let_def)

lemma trimStartOfStreamHelper_concat:
  "concat (run_trimmer trimStartOfStreamHelper True xs) = dropWhile isWhiteSpace (concat xs)"
proof (induction xs)
  case Nil
  then show ?case by simp
next
  case (Cons x xs)
  show ?case
  proof (cases "dropWhile isWhiteSpace x = []")
    case True
    then have "\<forall>c \<in> set x. isWhiteSpace c"
      by (simp add: dropWhile_eq_Nil_conv)
    then have "dropWhile isWhiteSpace (x @ concat xs) = dropWhile isWhiteSpace (concat xs)"
      by (simp add: dropWhile_append)
    then show ?thesis
      using True Cons by (simp add: trimStartOfStreamHelper_at_start)
  next
    case False
    then have "\<exists>c \<in> set x. \<not> isWhiteSpace c"
      by (simp add: dropWhile_eq_Nil_conv)
    then have "dropWhile isWhiteSpace (x @ concat xs) = dropWhile isWhiteSpace x @ concat xs"
      by (auto simp add: dropWhile_append)
    moreover have "trimStartOfStreamHelper True x = (dropWhile isWhiteSpace x, False)"
      using False by (simp add: trimStartOfStreamHelper_at_start)
    ultimately show ?thesis
      by (simp add: trimStartOfStreamHelper_started)
  qed
qed

text \<open>
  Claim C8, as the code has it. For a stream of plain-text chat chunks read from its
  start, the texts that \<^verbatim>\<open>streamable\<close> yields, concatenated, are the \<^verbatim>\<open>delta.content\<close> fields
  of the chunks, concatenated, without the leading white space of that concatenation: the
  trimmer drops every leading token that is empty or white space only, and the leading
  white space of the first token that is not. The stream ends without an error.
\<close>

theorem plain_text_concatenation:
  assumes "\<forall>json \<in> set chunks. plain_text_chunk json"
  shows "concat (fst (streamable trimStartOfStreamHelper fresh_extractor chunks)) =
           dropWhile (\<lambda>c. c \<in> {CHR 0x09, CHR 0x0A, CHR 0x0B, CHR 0x0C, CHR 0x0D,
                                  CHR 0x20, CHR 0xA0})
             (concat (map delta_content chunks)) \<and>
         snd (streamable trimStartOfStreamHelper fresh_extractor chunks) = None"
proof -
  have ws: "isWhiteSpace = (\<lambda>c. c \<in> {CHR 0x09, CHR 0x0A, CHR 0x0B, CHR 0x0C, CHR 0x0D,
                                       CHR 0x20, CHR 0xA0})"
    by (rule ext) (simp add: isWhiteSpace_def)
  have start: "\<not> isFunctionStreamingIn_x fresh_extractor" "trimState fresh_extractor = True"
    by (simp_all add: fresh_extractor_def)
  have "concat (fst (streamable trimStartOfStreamHelper fresh_extractor chunks)) =
          concat (run_trimmer trimStartOfStreamHelper True (map delta_content chunks)) \<and>
        snd (streamable trimStartOfStreamHelper fresh_extractor chunks) = None"
    using plain_text_through_trimmer [OF assms start(1), of trimStartOfStreamHelper] start(2)
    by simp
  then show ?thesis
    by (simp add: trimStartOfStreamHelper_concat ws)
qed

theorem plain_text_concatenation_witness:
  "plain_text_chunk (padded_hello_stream ! 0) \<and> plain_text_chunk (padded_hello_stream ! 1) \<and>
   plain_text_chunk (padded_hello_stream ! 2) \<and> plain_text_chunk (padded_hello_stream ! 3) \<and>
   length padded_hello_stream = 4 \<and>
   concat (map delta_content padded_hello_stream) = [CHR 0x20, CHR 0x20] @ ''Hello'' \<and>
   concat (fst (streamable trimStartOfStreamHelper fresh_extractor padded_hello_stream)) =
     ''Hello'' \<and>
   snd (streamable trimStartOfStreamHelper fresh_extractor padded_hello_stream) = None"
proof -
  have a: "\<forall>json \<in> set padded_hello_stream. plain_text_chunk json"
    by code_simp
  have d: "plain_text_chunk (padded_hello_stream ! 0) \<and>
           plain_text_chunk (padded_hello_stream ! 1) \<and>
           plain_text_chunk (padded_hello_stream ! 2) \<and>
           plain_text_chunk (padded_hello_stream ! 3) \<and> length padded_hello_stream = 4"
    by code_simp
  have c: "concat (map delta_content padded_hello_stream) = [CHR 0x20, CHR 0x20] @ ''Hello''"
    by code_simp
  show ?thesis
    using d c plain_text_concatenation [OF a]
    by simp
qed

text \<open>
  Claim C8 as stated fails: the trim is not the trim of a single leading empty token. The
  only content of the stream is \<^verbatim>\<open> Hi\<close>, a token that is neither empty nor white space
  only, so trimming one leading empty token leaves it as it is; the code yields \<^verbatim>\<open>Hi\<close>.
\<close>

theorem leading_space_of_content_is_trimmed:
  "map delta_content spaced_hi_stream = [[CHR 0x20] @ ''Hi''] \<and>
   concat (single_leading_empty_token_trim (map delta_content spaced_hi_stream)) =
     [CHR 0x20] @ ''Hi'' \<and>
   concat (fst (streamable trimStartOfStreamHelper fresh_extractor spaced_hi_stream)) = ''Hi''"
  by code_simp

section \<open>Round trip of escaped arguments\<close>

lemma replace_all_append:
  "replace_all c r (xs @ ys) = replace_all c r xs @ replace_all c r ys"
  by (simp add: replace_all_def)

lemma replace_all_concat_map:
  "replace_all c r (concat (map f s)) = concat (map (\<lambda>x. replace_all c r (f x)) s)"
  by (induction s) (simp_all add: replace_all_append, simp add: replace_all_def)

lemma replace_all_singletons: "replace_all c r s = concat (map (\<lambda>x. replace_all c r [x]) s)"
  by (simp add: replace_all_def)

lemma escape_char_replacements:
  "replace_all (CHR 0x0C) [backslash, CHR ''f'']
     (replace_all (CHR 0x09) [backslash, CHR ''t'']
       (replace_all (CHR 0x0D) [backslash, CHR ''r'']
         (replace_all (CHR 0x0A) [backslash, CHR ''n'']
           (replace_all dquote [backslash, dquote]
             (replace_all (CHR ''/'') [backslash, CHR ''/'']
               (replace_all backslash [backslash, backslash] [x])))))) = escape_char x"
  by (simp add: replace_all_def escape_char_def)

text \<open>The seven passes amount to one pass that escapes character by character.\<close>

lemma escapedPartialJson_concat_map: "escapedPartialJson s = concat (map escape_char s)"
proof -
  have "escapedPartialJson s =
          concat (map (\<lambda>x.
            replace_all (CHR 0x0C) [backslash, CHR ''f'']
             (replace_all (CHR 0x09) [backslash, CHR ''t'']
               (replace_all (CHR 0x0D) [backslash, CHR ''r'']
                 (replace_all (CHR 0x0A) [backslash, CHR ''n'']
                   (replace_all dquote [backslash, dquote]
                     (replace_all (CHR ''/'') [backslash, CHR ''/'']
                       (replace_all backslash [backslash, backslash] [x]))))))) s)"
    unfolding escapedPartialJson_def
    by (subst replace_all_singletons [of backslash]) (simp only: replace_all_concat_map)
  then show ?thesis
    by (simp only: escape_char_replacements)
qed

text \<open>Fragments can be escaped one by one: escaping commutes with concatenation.\<close>

lemma escapedPartialJson_append:
  "escapedPartialJson (a @ b) = escapedPartialJson a @ escapedPartialJson b"
  by (simp add: escapedPartialJson_concat_map)

lemma JSON_string_chars_escape_char:
  assumes "json_safe c"
  shows "JSON_string_chars (escape_char c @ rest) =
           map_option ((#) (of_char c)) (JSON_string_chars rest)"
proof -
  consider "c = backslash" | "c = CHR ''/''" | "c = dquote" | "c = CHR 0x0A" | "c = CHR 0x0D"
    | "c = CHR 0x09" | "c = CHR 0x0C"
    | "c \<notin> {backslash, CHR ''/'', dquote, CHR 0x0A, CHR 0x0D, CHR 0x09, CHR 0x0C}"
    by blast
  then show ?thesis
  proof cases
    case 8
    then have "escape_char c = [c]"
      by (simp add: escape_char_def)
    moreover have "\<not> (of_char c :: nat) < 0x20"
      using assms 8 by (simp add: json_safe_def)
    ultimately show ?thesis
      using 8 by simp
  qed (simp_all add: escape_char_def unescape_char_def)
qed

text \<open>
  The round trip holds for every argument text without a control character other than
  line feed, carriage return, tab and form feed.
\<close>

lemma escaped_arguments_round_trip:
  assumes "\<forall>c \<in> set s. json_safe c"
  shows "JSON_parse_string ([dquote] @ escapedPartialJson s @ [dquote]) = Some (code_units s)"
proof -
  have "JSON_string_chars (concat (map escape_char s) @ [dquote]) = Some (code_units s)"
    using assms
    by (induction s) (simp_all add: JSON_string_chars_escape_char code_units_def)
  then show ?thesis
    by (simp add: JSON_parse_string_def escapedPartialJson_concat_map isJSONWhiteSpace_def)
qed

text \<open>
  Claim C2 holds for those texts only. A backspace (U+0008) is a control character that
  none of the seven replacements touches: it stays as it is, and a JSON string literal may
  not contain it unescaped, so the parse fails instead of giving the argument text back.
\<close>

theorem backspace_breaks_round_trip:
  "escapedPartialJson [CHR 0x08] = [CHR 0x08] \<and>
   JSON_parse_string ([dquote] @ escapedPartialJson [CHR 0x08] @ [dquote]) = None"
  by code_simp

section \<open>Properties of the function-call aggregator\<close>

subsection \<open>What the transformer does to a sequence of texts\<close>

lemma transform_aggregates:
  "aggregatedFinalCompletionResponse (fst (transform cm s m)) =
     aggregatedFinalCompletionResponse s @ m"
  by (simp add: transform_def Let_def)

text \<open>The text kept for \<^verbatim>\<open>onFinal\<close> is the concatenation of everything that came in.\<close>

lemma transform_all_aggregates:
  "aggregatedFinalCompletionResponse (fst (transform_all cm s ms)) =
     aggregatedFinalCompletionResponse s @ concat ms"
proof (induction ms arbitrary: s)
  case Nil
  then show ?case by simp
next
  case (Cons m ms)
  obtain s1 out1 where t: "transform cm s m = (s1, out1)"
    by (cases "transform cm s m")
  obtain s2 out2 where t2: "transform_all cm s1 ms = (s2, out2)"
    by (cases "transform_all cm s1 ms")
  have "aggregatedFinalCompletionResponse s1 = aggregatedFinalCompletionResponse s @ m"
    using transform_aggregates [of cm s m] t by simp
  moreover have "aggregatedFinalCompletionResponse s2 =
                   aggregatedFinalCompletionResponse s1 @ concat ms"
    using Cons.IH [of s1] t2 by simp
  ultimately show ?case
    by (simp add: t t2)
qed

lemma transform_all_append:
  "transform_all cm s (xs @ ys) =
     (let (s1, out1) = transform_all cm s xs; (s2, out2) = transform_all cm s1 ys
      in (s2, out1 @ out2))"
  by (induction xs arbitrary: s) (simp_all split: prod.splits)

text \<open>Before a text with the marker has come, every text is enqueued and nothing is buffered.\<close>

lemma transform_all_passthrough:
  assumes "isFirstChunk s" and "\<not> isFunctionStreamingIn s"
    and "\<forall>m \<in> set ms. \<not> startsWith m function_call_marker"
  shows "transform_all cm s ms =
           (s\<lparr>aggregatedFinalCompletionResponse :=
                 aggregatedFinalCompletionResponse s @ concat ms\<rparr>,
            map (text_event cm) ms)"
  using assms
proof (induction ms arbitrary: s)
  case Nil
  then show ?case by simp
next
  case (Cons m ms)
  let ?s1 = "s\<lparr>aggregatedFinalCompletionResponse := aggregatedFinalCompletionResponse s @ m\<rparr>"
  have step: "transform cm s m = (?s1, [text_event cm m])"
    using Cons.prems by (simp add: transform_def text_event_def Let_def)
  have "transform_all cm ?s1 ms =
          (?s1\<lparr>aggregatedFinalCompletionResponse :=
                  aggregatedFinalCompletionResponse ?s1 @ concat ms\<rparr>,
           map (text_event cm) ms)"
    using Cons.prems by (intro Cons.IH) simp_all
  then show ?case
    by (simp add: step)
qed

text \<open>Once a call is being buffered, every text is appended to the buffer.\<close>

lemma transform_all_buffering:
  assumes "\<not> isFirstChunk s" and "isFunctionStreamingIn s"
  shows "transform_all cm s ms =
           (s\<lparr>aggregatedFinalCompletionResponse :=
                 aggregatedFinalCompletionResponse s @ concat ms,
               aggregatedResponse := aggregatedResponse s @ concat ms\<rparr>, [])"
  using assms
proof (induction ms arbitrary: s)
  case Nil
  then show ?case by simp
next
  case (Cons m ms)
  let ?s1 = "s\<lparr>aggregatedFinalCompletionResponse := aggregatedFinalCompletionResponse s @ m,
               aggregatedResponse := aggregatedResponse s @ m\<rparr>"
  have step: "transform cm s m = (?s1, [])"
    using Cons.prems by (simp add: transform_def Let_def)
  have "transform_all cm ?s1 ms =
          (?s1\<lparr>aggregatedFinalCompletionResponse :=
                  aggregatedFinalCompletionResponse ?s1 @ concat ms,
                aggregatedResponse := aggregatedResponse ?s1 @ concat ms\<rparr>, [])"
    using Cons.prems by (intro Cons.IH) simp_all
  then show ?case
    by (simp add: step)
qed

text \<open>
  A stream whose earliest text with the marker is \<open>m\<close>: the texts before it are enqueued,
  \<open>m\<close> and all later texts are buffered.
\<close>

lemma transform_all_call:
  assumes "\<forall>m \<in> set pre. \<not> startsWith m function_call_marker"
    and "startsWith m function_call_marker"
  shows "transform_all cm initial_state (pre @ m # post) =
           (\<lparr>isFirstChunk = False, aggregatedResponse = concat (m # post),
             aggregatedFinalCompletionResponse = concat (pre @ m # post),
             isFunctionStreamingIn = True\<rparr>,
            map (text_event cm) pre)"
proof -
  let ?s0 = "initial_state\<lparr>aggregatedFinalCompletionResponse := concat pre\<rparr>"
  let ?s1 = "\<lparr>isFirstChunk = False, aggregatedResponse = m,
              aggregatedFinalCompletionResponse = concat pre @ m,
              isFunctionStreamingIn = True\<rparr>"
  have a: "transform_all cm initial_state pre = (?s0, map (text_event cm) pre)"
    using assms(1) transform_all_passthrough [of initial_state pre cm]
    by (simp add: initial_state_def)
  have b: "transform cm ?s0 m = (?s1, [])"
    using assms(2) by (simp add: transform_def initial_state_def Let_def)
  have c: "transform_all cm ?s1 post =
             (?s1\<lparr>aggregatedFinalCompletionResponse :=
                     aggregatedFinalCompletionResponse ?s1 @ concat post,
                   aggregatedResponse := aggregatedResponse ?s1 @ concat post\<rparr>, [])"
    by (rule transform_all_buffering) simp_all
  show ?thesis
    by (simp add: transform_all_append a b c)
qed

subsection \<open>The end of a stream\<close>

text \<open>
  Off the continuation path, \<^verbatim>\<open>flush\<close> enqueues at most one chunk and then runs the
  \<^verbatim>\<open>finally\<close> block, whatever the outcome.
\<close>

lemma flush_without_continuation:
  assumes "\<not> splices_continuation parse cb msgs s"
  shows "\<exists>effects err.
           flush rec parse cb msgs s = Some (effects @ finally_block (onFinal cb) s, err) \<and>
           (\<forall>e \<in> set effects. is_Enqueue e)"
proof (cases "\<not> isFirstChunk s \<and> isFunctionStreamingIn s")
  case False
  then have "flush rec parse cb msgs s = Some ([] @ finally_block (onFinal cb) s, None)"
    by (auto simp: flush_def)
  then show ?thesis
    by (metis empty_iff list.set(1))
next
  case True
  show ?thesis
  proof (cases "parse (aggregatedResponse s)")
    case (Inl e)
    then have "flush rec parse cb msgs s = Some ([] @ finally_block (onFinal cb) s, Some e)"
      using True by (simp add: flush_def)
    then show ?thesis
      by (metis empty_iff list.set(1))
  next
    case (Inr p)
    let ?h = "experimental_onFunctionCall cb
                (FunctionCallPayload (payload_function_call_name p) (argumentsPayload p)) msgs"
    show ?thesis
    proof (cases ?h)
      case Rejects
      then have "flush rec parse cb msgs s =
                   Some ([] @ finally_block (onFinal cb) s, Some HandlerError)"
        using True Inr by (simp add: flush_def)
      then show ?thesis
        by (metis empty_iff list.set(1))
    next
      case (Resolves built resp)
      then have nostream: "\<And>res. resp \<noteq> ResponseStream res"
        using assms True Inr by (auto simp: splices_continuation_def)
      have "\<exists>x. flush rec parse cb msgs s =
                   Some ([Enqueue x] @ finally_block (onFinal cb) s, None)"
        using True Inr Resolves nostream by (cases resp) (auto simp: flush_def Let_def)
      then obtain x where "flush rec parse cb msgs s =
                   Some ([Enqueue x] @ finally_block (onFinal cb) s, None)"
        by blast
      moreover have "\<forall>e \<in> set [Enqueue x]. is_Enqueue e"
        by (simp add: is_Enqueue_def)
      ultimately show ?thesis
        by blast
    qed
  qed
qed


subsection \<open>Whole runs\<close>

text \<open>A stream without a text that starts with the marker: all texts, then the notification.\<close>

lemma OpenAIStream_plain:
  assumes "streamable tr \<lparr>trimState = t0, isFunctionStreamingIn_x = False\<rparr> res = (texts, None)"
    and "\<forall>x \<in> set texts. \<not> startsWith x function_call_marker"
  shows "OpenAIStream (Suc depth) tr t0 parse cb msgs res =
           Some ((if onStart cb then [OnStart] else []) @
                 map Enqueue (map (text_event (experimental_streamData cb)) texts) @
                 (if onFinal cb \<and> concat texts \<noteq> [] then [OnFinal (concat texts)] else []),
                 None)"
proof -
  let ?s = "initial_state\<lparr>aggregatedFinalCompletionResponse := concat texts\<rparr>"
  have t: "transform_all (experimental_streamData cb) initial_state texts =
             (?s, map (text_event (experimental_streamData cb)) texts)"
    using assms(2) transform_all_passthrough [of initial_state texts]
    by (simp add: initial_state_def)
  have f: "flush (OpenAIStream depth tr t0 parse) parse cb msgs ?s =
             Some (if onFinal cb \<and> concat texts \<noteq> [] then [OnFinal (concat texts)] else [],
                   None)"
    by (simp add: flush_def finally_block_def initial_state_def)
  show ?thesis
    by (simp add: assms(1) t f)
qed


text \<open>A run that reaches \<^verbatim>\<open>flush\<close> and does not take the continuation path.\<close>

lemma OpenAIStream_without_continuation:
  assumes "streamable tr \<lparr>trimState = t0, isFunctionStreamingIn_x = False\<rparr> res = (texts, None)"
    and "\<not> splices_continuation parse cb msgs
             (fst (transform_all (experimental_streamData cb) initial_state texts))"
  shows "\<exists>effects err.
           OpenAIStream (Suc depth) tr t0 parse cb msgs res =
             Some ((if onStart cb then [OnStart] else []) @
                   map Enqueue (snd (transform_all (experimental_streamData cb)
                                       initial_state texts)) @
                   effects @
                   (if onFinal cb \<and> concat texts \<noteq> [] then [OnFinal (concat texts)] else []),
                   err) \<and>
           (\<forall>e \<in> set effects. is_Enqueue e)"
proof -
  obtain s out where t: "transform_all (experimental_streamData cb) initial_state texts = (s, out)"
    by (cases "transform_all (experimental_streamData cb) initial_state texts")
  have agg: "aggregatedFinalCompletionResponse s = concat texts"
    using transform_all_aggregates [of "experimental_streamData cb" initial_state texts] t
    by (simp add: initial_state_def)
  obtain effects err where
    f: "flush (OpenAIStream depth tr t0 parse) parse cb msgs s =
          Some (effects @ finally_block (onFinal cb) s, err)"
    and e: "\<forall>e \<in> set effects. is_Enqueue e"
    using flush_without_continuation
            [where parse = parse and cb = cb and msgs = msgs and s = s
               and rec = "OpenAIStream depth tr t0 parse"]
          assms(2) t
    by auto
  have "OpenAIStream (Suc depth) tr t0 parse cb msgs res =
          Some ((if onStart cb then [OnStart] else []) @ map Enqueue out @ effects @
                (if onFinal cb \<and> concat texts \<noteq> [] then [OnFinal (concat texts)] else []),
                err)"
    by (simp add: assms(1) t f finally_block_def agg)
  then show ?thesis
    using e t by auto
qed

subsection \<open>At most one notification, and last\<close>





subsection \<open>Continuations\<close>




text \<open>
  A continuation that splices a further continuation: the handler answers the call of the
  parent with a stream that is a call again, and that call with a greeting. The one
  notification of the run carries the greeting, the text of the innermost stream, and not
  the text of the first continuation.
\<close>

lemma nested_continuation_onFinal:
  "concat (fst (streamable trimStartOfStreamHelper fresh_extractor call_stream)) = call_text \<and>
   OpenAIStream (Suc (Suc (Suc 0))) trimStartOfStreamHelper True example_JSON_parse
     (example_callbacks False handler_continues_twice) [] call_stream =
   Some ([Enqueue ''Hi'', OnFinal ''Hi''], None)"
  by code_simp

subsection \<open>The final notification\<close>

text \<open>
  Claim C3, as the code has it. Every run that reaches \<^verbatim>\<open>flush\<close> and does not splice a
  continuation (a plain end of stream, a buffered payload that does not parse, a handler
  that rejects, a handler that resolves to nothing or to a string) ends with the \<^verbatim>\<open>finally\<close>
  block: \<^verbatim>\<open>onFinal\<close> fires as the last effect, with the concatenation of all texts of the
  stream, when the callback is registered and that text is not empty, and it fires nowhere
  else in the run. The run comes to an end whatever the bound on nested streams.
\<close>

theorem onFinal_fires_last:
  assumes "streamable tr \<lparr>trimState = t0, isFunctionStreamingIn_x = False\<rparr> res = (texts, None)"
    and "\<not> splices_continuation parse cb msgs
             (fst (transform_all (experimental_streamData cb) initial_state texts))"
  shows "\<exists>body err.
           OpenAIStream (Suc depth) tr t0 parse cb msgs res =
             Some (body @
                   (if onFinal cb \<and> concat texts \<noteq> [] then [OnFinal (concat texts)] else []),
                   err) \<and>
           (\<forall>t. OnFinal t \<notin> set body)"
proof -
  obtain effects err where
    run: "OpenAIStream (Suc depth) tr t0 parse cb msgs res =
            Some ((if onStart cb then [OnStart] else []) @
                  map Enqueue (snd (transform_all (experimental_streamData cb)
                                      initial_state texts)) @
                  effects @
                  (if onFinal cb \<and> concat texts \<noteq> [] then [OnFinal (concat texts)] else []),
                  err)"
    and enq: "\<forall>e \<in> set effects. is_Enqueue e"
    using OpenAIStream_without_continuation [OF assms, of depth] by blast
  let ?body = "(if onStart cb then [OnStart] else []) @
               map Enqueue (snd (transform_all (experimental_streamData cb)
                                   initial_state texts)) @ effects"
  have "\<forall>t. OnFinal t \<notin> set ?body"
    using enq by (auto simp: is_Enqueue_def)
  moreover have "OpenAIStream (Suc depth) tr t0 parse cb msgs res =
                   Some (?body @
                         (if onFinal cb \<and> concat texts \<noteq> []
                          then [OnFinal (concat texts)] else []), err)"
    using run by simp
  ultimately show ?thesis
    by blast
qed

theorem onFinal_fires_last_witness:
  "streamable trimStartOfStreamHelper \<lparr>trimState = True, isFunctionStreamingIn_x = False\<rparr>
     hello_stream = ([''Hel'', ''lo''], None) \<and>
   \<not> splices_continuation example_JSON_parse (example_callbacks False handler_declines) []
        (fst (transform_all False initial_state [''Hel'', ''lo''])) \<and>
   (\<exists>body err.
      OpenAIStream (Suc 0) trimStartOfStreamHelper True example_JSON_parse
        (example_callbacks False handler_declines) [] hello_stream =
      Some (body @ [OnFinal ''Hello''], err) \<and>
      (\<forall>t. OnFinal t \<notin> set body))"
proof -
  have h1: "streamable trimStartOfStreamHelper
              \<lparr>trimState = True, isFunctionStreamingIn_x = False\<rparr> hello_stream =
            ([''Hel'', ''lo''], None)"
    by code_simp
  have h2: "\<not> splices_continuation example_JSON_parse
                (example_callbacks False handler_declines) []
                (fst (transform_all
                        (experimental_streamData (example_callbacks False handler_declines))
                        initial_state [''Hel'', ''lo'']))"
    by code_simp
  have h2': "\<not> splices_continuation example_JSON_parse
                (example_callbacks False handler_declines) []
                (fst (transform_all False initial_state [''Hel'', ''lo'']))"
    by code_simp
  show ?thesis
    using h1 h2' onFinal_fires_last [OF h1 h2, of 0]
    by (simp add: example_callbacks_def)
qed

text \<open>
  Claim C3 as stated fails on the continuation path: the stream of the caller is the
  function call, the handler answers it with a greeting, and the one \<^verbatim>\<open>onFinal\<close> of the run
  carries the text of the continuation, not the text of the stream the caller started.
\<close>

theorem onFinal_carries_continuation_text:
  "concat (fst (streamable trimStartOfStreamHelper fresh_extractor call_stream)) = call_text \<and>
   OpenAIStream (Suc (Suc 0)) trimStartOfStreamHelper True example_JSON_parse
     (example_callbacks False (handler_continues hi_stream)) [] call_stream =
   Some ([Enqueue ''Hi'', OnFinal ''Hi''], None) \<and>
   call_text \<noteq> ''Hi''"
  by code_simp

subsection \<open>A buffered call that does not parse\<close>

text \<open>
  Claim C4, as the code has it. When the buffered text does not parse, \<^verbatim>\<open>flush\<close> throws the
  error of the parse: the \<^verbatim>\<open>try\<close> block has no \<^verbatim>\<open>catch\<close>. Nothing is enqueued for the buffered
  call; the \<^verbatim>\<open>finally\<close> block fires \<^verbatim>\<open>onFinal\<close> with the whole text when the callback is
  registered; and the run ends in that error.
\<close>

theorem malformed_call_rethrown:
  assumes "streamable tr \<lparr>trimState = t0, isFunctionStreamingIn_x = False\<rparr> res =
             (pre @ m # post, None)"
    and "\<forall>x \<in> set pre. \<not> startsWith x function_call_marker"
    and "startsWith m function_call_marker"
    and "parse (concat (m # post)) = Inl e"
  shows "OpenAIStream (Suc depth) tr t0 parse cb msgs res =
           Some ((if onStart cb then [OnStart] else []) @
                 map Enqueue (map (text_event (experimental_streamData cb)) pre) @
                 (if onFinal cb then [OnFinal (concat (pre @ m # post))] else []),
                 Some e)"
proof -
  let ?s = "\<lparr>isFirstChunk = False, aggregatedResponse = concat (m # post),
             aggregatedFinalCompletionResponse = concat (pre @ m # post),
             isFunctionStreamingIn = True\<rparr>"
  have t: "transform_all (experimental_streamData cb) initial_state (pre @ m # post) =
             (?s, map (text_event (experimental_streamData cb)) pre)"
    using assms(2,3) by (rule transform_all_call)
  have "m \<noteq> []"
    using assms(3) by (auto simp: startsWith_def function_call_marker_def)
  then have f: "flush (OpenAIStream depth tr t0 parse) parse cb msgs ?s =
                  Some (if onFinal cb then [OnFinal (concat (pre @ m # post))] else [], Some e)"
    using assms(4) by (simp add: flush_def finally_block_def)
  have f': "flush (OpenAIStream depth tr t0 parse) parse cb msgs
              \<lparr>isFirstChunk = False, aggregatedResponse = m @ concat post,
               aggregatedFinalCompletionResponse = concat pre @ m @ concat post,
               isFunctionStreamingIn = True\<rparr> =
            Some (if onFinal cb then [OnFinal (concat pre @ m @ concat post)] else [], Some e)"
    using f by simp
  show ?thesis
    by (simp add: assms(1) t f')
qed

theorem malformed_call_rethrown_witness:
  "example_JSON_parse truncated_call_text = Inl SyntaxError \<and>
   OpenAIStream (Suc 0) trimStartOfStreamHelper True example_JSON_parse
     (example_callbacks True handler_declines) [] (chat_chunk (Str ''Hi'') None None # truncated_call_stream) =
   Some ([Enqueue (getStreamString text_part ''Hi''), OnFinal (''Hi'' @ truncated_call_text)],
         Some SyntaxError)"
proof -
  have h1: "streamable trimStartOfStreamHelper
              \<lparr>trimState = True, isFunctionStreamingIn_x = False\<rparr>
              (chat_chunk (Str ''Hi'') None None # truncated_call_stream) =
            ([''Hi''] @ function_call_open ''get_weather'' # [''{}''], None)"
    by code_simp
  have h2: "\<forall>x \<in> set [''Hi'']. \<not> startsWith x function_call_marker"
    by code_simp
  have h3: "startsWith (function_call_open ''get_weather'') function_call_marker"
    by code_simp
  have h4: "example_JSON_parse (concat (function_call_open ''get_weather'' # [''{}''])) =
            Inl SyntaxError"
    by code_simp
  have h5: "example_JSON_parse truncated_call_text = Inl SyntaxError"
    by code_simp
  have rhs: "''Hi'' @ function_call_open ''get_weather'' @ ''{}'' = ''Hi'' @ truncated_call_text"
    by code_simp
  show ?thesis
    using h5 rhs
      malformed_call_rethrown
        [where pre = "[''Hi'']" and m = "function_call_open ''get_weather''"
           and post = "[''{}'']" and depth = 0 and tr = trimStartOfStreamHelper
           and ?t0.0 = True and parse = example_JSON_parse and e = SyntaxError
           and res = "chat_chunk (Str ''Hi'') None None # truncated_call_stream"
           and cb = "example_callbacks True handler_declines" and msgs = "[]",
         OF h1 h2 h3 h4]
    by (simp add: example_callbacks_def text_event_def)
qed

text \<open>
  Claim C4 as stated fails: the stream closes inside the arguments of a call, the buffered
  text is not JSON, and the run ends in a syntax error without having enqueued the
  buffered text.
\<close>

theorem malformed_call_throws:
  "concat (fst (streamable trimStartOfStreamHelper fresh_extractor truncated_call_stream)) =
     truncated_call_text \<and>
   OpenAIStream (Suc 0) trimStartOfStreamHelper True example_JSON_parse
     (example_callbacks False handler_declines) [] truncated_call_stream =
   Some ([OnFinal truncated_call_text], Some SyntaxError)"
  by code_simp

subsection \<open>When buffering starts\<close>

text \<open>
  Claim C5 fails on the code. \<^verbatim>\<open>isFirstChunk\<close> is cleared only when a text with the marker
  comes; a text without it leaves the flag set. So when the first chunk is not an opener,
  a later chunk that starts with the marker is taken for the first one and starts the
  buffering: here \<^verbatim>\<open>Hi\<close> is enqueued, and the three texts of the call that follows are
  buffered, none of them enqueued.
\<close>

theorem later_marker_chunk_is_buffered:
  "fst (streamable trimStartOfStreamHelper fresh_extractor hi_then_call_stream) =
     [''Hi'', function_call_open ''get_weather'', ''{}'', function_call_close] \<and>
   transform_all False initial_state
     [''Hi'', function_call_open ''get_weather'', ''{}'', function_call_close] =
     (\<lparr>isFirstChunk = False, aggregatedResponse = call_text,
       aggregatedFinalCompletionResponse = ''Hi'' @ call_text,
       isFunctionStreamingIn = True\<rparr>,
      [''Hi''])"
  by code_simp

subsection \<open>The envelope\<close>

text \<open>
  Claim C7, as the code has it. A stream with a buffered call that the handler leaves to
  the client: the texts before the call are enqueued one by one and the buffered call is
  enqueued at the end. In raw mode each of them is enqueued as it is, the function-call
  event too; in complex mode (\<^verbatim>\<open>experimental_streamData\<close>) each is put in the envelope of its
  kind: the digit, a colon, the JSON text of the payload and a line feed. No data event is
  enqueued.
\<close>

theorem envelope_only_in_complex_mode:
  assumes "streamable tr \<lparr>trimState = t0, isFunctionStreamingIn_x = False\<rparr> res =
             (pre @ m # post, None)"
    and "\<forall>x \<in> set pre. \<not> startsWith x function_call_marker"
    and "startsWith m function_call_marker"
    and "parse (concat (m # post)) = Inr p"
    and "experimental_onFunctionCall cb
           (FunctionCallPayload (payload_function_call_name p) (argumentsPayload p)) msgs =
         Resolves built NoResponse"
  shows "OpenAIStream (Suc depth) tr t0 parse cb msgs res =
           Some ((if onStart cb then [OnStart] else []) @
                 map Enqueue
                   (map (\<lambda>x. if experimental_streamData cb
                              then getStreamString text_part x else x) pre) @
                 [Enqueue (if experimental_streamData cb
                           then getStreamString function_call_part (concat (m # post))
                           else concat (m # post))] @
                 (if onFinal cb then [OnFinal (concat (pre @ m # post))] else []),
                 None)"
proof -
  let ?s = "\<lparr>isFirstChunk = False, aggregatedResponse = concat (m # post),
             aggregatedFinalCompletionResponse = concat (pre @ m # post),
             isFunctionStreamingIn = True\<rparr>"
  have t: "transform_all (experimental_streamData cb) initial_state (pre @ m # post) =
             (?s, map (text_event (experimental_streamData cb)) pre)"
    using assms(2,3) by (rule transform_all_call)
  have "m \<noteq> []"
    using assms(3) by (auto simp: startsWith_def function_call_marker_def)
  then have f: "flush (OpenAIStream depth tr t0 parse) parse cb msgs ?s =
                  Some (Enqueue (if experimental_streamData cb
                                 then getStreamString function_call_part (concat (m # post))
                                 else concat (m # post)) #
                        (if onFinal cb then [OnFinal (concat (pre @ m # post))] else []), None)"
    using assms(4,5) by (simp add: flush_def finally_block_def)
  have f': "flush (OpenAIStream depth tr t0 parse) parse cb msgs
              \<lparr>isFirstChunk = False, aggregatedResponse = m @ concat post,
               aggregatedFinalCompletionResponse = concat pre @ m @ concat post,
               isFunctionStreamingIn = True\<rparr> =
            Some (Enqueue (if experimental_streamData cb
                           then getStreamString function_call_part (m @ concat post)
                           else m @ concat post) #
                  (if onFinal cb then [OnFinal (concat pre @ m @ concat post)] else []), None)"
    using f by simp
  have te: "text_event (experimental_streamData cb) =
              (\<lambda>x. if experimental_streamData cb then getStreamString text_part x else x)"
    by (rule ext) (simp add: text_event_def)
  show ?thesis
    by (simp add: assms(1) t f' te)
qed

theorem envelope_only_in_complex_mode_witness:
  "OpenAIStream (Suc 0) trimStartOfStreamHelper True example_JSON_parse
     (example_callbacks False handler_declines) [] hi_then_call_stream =
   Some ([Enqueue ''Hi'', Enqueue call_text, OnFinal (''Hi'' @ call_text)], None) \<and>
   OpenAIStream (Suc 0) trimStartOfStreamHelper True example_JSON_parse
     (example_callbacks True handler_declines) [] hi_then_call_stream =
   Some ([Enqueue (getStreamString text_part ''Hi''),
          Enqueue (getStreamString function_call_part call_text),
          OnFinal (''Hi'' @ call_text)], None)"
proof -
  have h1: "streamable trimStartOfStreamHelper
              \<lparr>trimState = True, isFunctionStreamingIn_x = False\<rparr> hi_then_call_stream =
            ([''Hi''] @ function_call_open ''get_weather'' # [''{}'', function_call_close], None)"
    by code_simp
  have h2: "\<forall>x \<in> set [''Hi'']. \<not> startsWith x function_call_marker"
    by code_simp
  have h3: "startsWith (function_call_open ''get_weather'') function_call_marker"
    by code_simp
  have h4: "example_JSON_parse
              (concat (function_call_open ''get_weather'' # [''{}'', function_call_close])) =
            Inr example_call"
    by code_simp
  have h5a: "experimental_onFunctionCall (example_callbacks False handler_declines)
               (FunctionCallPayload (payload_function_call_name example_call)
                                    (argumentsPayload example_call)) [] =
             Resolves None NoResponse"
    by (simp add: example_callbacks_def handler_declines_def)
  have h5b: "experimental_onFunctionCall (example_callbacks True handler_declines)
               (FunctionCallPayload (payload_function_call_name example_call)
                                    (argumentsPayload example_call)) [] =
             Resolves None NoResponse"
    by (simp add: example_callbacks_def handler_declines_def)
  have joined: "function_call_open ''get_weather'' @ ''{}'' @ function_call_close = call_text"
    by code_simp
  show ?thesis
    using joined
      envelope_only_in_complex_mode
        [where pre = "[''Hi'']" and m = "function_call_open ''get_weather''"
           and post = "[''{}'', function_call_close]" and depth = 0
           and tr = trimStartOfStreamHelper and ?t0.0 = True and parse = example_JSON_parse
           and res = hi_then_call_stream and p = example_call and built = None
           and cb = "example_callbacks False handler_declines" and msgs = "[]",
         OF h1 h2 h3 h4 h5a]
      envelope_only_in_complex_mode
        [where pre = "[''Hi'']" and m = "function_call_open ''get_weather''"
           and post = "[''{}'', function_call_close]" and depth = 0
           and tr = trimStartOfStreamHelper and ?t0.0 = True and parse = example_JSON_parse
           and res = hi_then_call_stream and p = example_call and built = None
           and cb = "example_callbacks True handler_declines" and msgs = "[]",
         OF h1 h2 h3 h4 h5b]
    by (simp add: example_callbacks_def)
qed

text \<open>
  Claim C7 as stated fails: in raw mode the function-call event enqueued by \<^verbatim>\<open>flush\<close> is the
  buffered text itself, not its envelope.
\<close>

theorem raw_function_call_event_not_enveloped:
  "\<not> experimental_streamData (example_callbacks False handler_declines) \<and>
   OpenAIStream (Suc 0) trimStartOfStreamHelper True example_JSON_parse
     (example_callbacks False handler_declines) [] call_stream =
   Some ([Enqueue call_text, OnFinal call_text], None) \<and>
   call_text \<noteq> getStreamString function_call_part call_text"
  by code_simp

end
